theory Spec2Isabelle
  imports Complex_Main "HOL-Library.Multiset" "HOL-Library.Sublist" "HOL-Library.Log_Nat"
begin

section \<open>AcadPlanner: course records, the weighted index and the planner's operations\<close>

text \<open>
  The development embeds the business logic of the single source file
  \<^verbatim>\<open>deepseek_jsx_20250825_e98532.jsx\<close>: the type \<^verbatim>\<open>Course\<close>, the function
  \<^verbatim>\<open>calcIRA\<close>, the constant \<^verbatim>\<open>seedData\<close> and the closures \<^verbatim>\<open>validateCourse\<close>,
  \<^verbatim>\<open>addCourse\<close>, \<^verbatim>\<open>update\<close> and \<^verbatim>\<open>remove\<close> of the component \<^verbatim>\<open>Planner\<close>.

  Conventions of the embedding.
  \<^item> A JavaScript \<^verbatim>\<open>number\<close> held in a field of a record is a finite binary64 value,
    given by the rational number it denotes; \<^verbatim>\<open>NaN\<close> and the infinities are not values
    of a field, and a negative zero in a field is the zero. Comparisons of fields are
    exact. The arithmetic of \<^verbatim>\<open>calcIRA\<close> is binary64 arithmetic: every sum, product
    and quotient is rounded to nearest, ties to even, and can be an infinity, \<^verbatim>\<open>NaN\<close> or
    a negative zero.
  \<^item> A JavaScript string is a \<open>string\<close>; one \<open>char\<close> stands for one code unit, so the
    strings of the model are those whose code units are below 256.
  \<^item> \<^verbatim>\<open>uuid()\<close> draws from \<^verbatim>\<open>Math.random()\<close>; every draw is an argument of the function
    that makes it.
  \<^item> A \<^verbatim>\<open>TypeError\<close> thrown inside a handler aborts the handler before any state setter
    runs; it is the left injection of the result.
\<close>

subsection \<open>Types\<close>

datatype status = Cursada | Em_andamento | A_cursar

text \<open>The field \<^verbatim>\<open>nota: number | ""\<close>: the empty string, or a number.\<close>

datatype nota = Vazia | Nota rat

record Course =
  id_c :: string
  nome :: string
  ch :: rat
  nota :: nota
  periodo :: string
  status :: status

text \<open>
  \<^verbatim>\<open>Partial<Course>\<close>, and any object that the source casts to \<^verbatim>\<open>Course\<close> without a check:
  \<open>None\<close> is a property that is absent (reading it yields \<^verbatim>\<open>undefined\<close>).
\<close>

record Partial_Course =
  p_id :: "string option"
  p_nome :: "string option"
  p_ch :: "rat option"
  p_nota :: "nota option"
  p_periodo :: "string option"
  p_status :: "status option"

datatype notification_type = Success | Error | Info

text \<open>
  A notification as the planner hands it to \<^verbatim>\<open>addNotification(message, type)\<close>. The random
  id that \<^verbatim>\<open>addNotification\<close> attaches for display, and the timer that takes the toast off the
  screen, belong to the presentation and are left out.
\<close>

record Notification =
  message :: string
  ntype :: notification_type

datatype exn = TypeError

text \<open>
  A value of binary64 arithmetic, which is what \<^verbatim>\<open>+\<close>, \<^verbatim>\<open>*\<close> and \<^verbatim>\<open>/\<close> compute on
  JavaScript numbers: a finite number, given by the rational it denotes; the negative
  zero (\<open>Finite_num 0\<close> is the positive one); the two infinities; \<^verbatim>\<open>NaN\<close>.
\<close>

datatype number = Finite_num rat | Neg_zero | Pos_inf | Neg_inf | NaN

text \<open>The integer part of the binary logarithm of a positive rational: the exponent \<open>k\<close>
  with \<open>2 powi k \<le> x < 2 powi (k + 1)\<close>, from the bit length of \<open>\<lfloor>x\<rfloor>\<close> when \<open>1 \<le> x\<close>
  and of \<open>\<lceil>1 / x\<rceil> - 1\<close> otherwise.\<close>

definition ilog2 :: "rat \<Rightarrow> int" where
  "ilog2 x = (if 1 \<le> x then bitlen \<lfloor>x\<rfloor> - 1 else - bitlen (\<lceil>1 / x\<rceil> - 1))"

text \<open>Rounding to the nearest integer, a tie going to the even one.\<close>

definition round_even :: "rat \<Rightarrow> int" where
  "round_even x =
     (let f = \<lfloor>x\<rfloor>; d = x - of_int f
      in if d < 1 / 2 then f else if 1 / 2 < d then f + 1 else if even f then f else f + 1)"

text \<open>
  Rounding an exact result to binary64, to nearest with ties to even: 53 significant
  bits, so the last bit kept has exponent \<open>ilog2 \<bar>q\<bar> - 52\<close>, but never below the
  exponent \<open>- 1074\<close> of the smallest subnormal; a rounded magnitude of \<open>2 powi 1024\<close> or
  more is an infinity; a magnitude rounded to nothing is a zero with the sign of \<open>q\<close>.
\<close>

definition round64 :: "rat \<Rightarrow> number" where
  "round64 q =
     (if q = 0 then Finite_num 0
      else let e = max (ilog2 \<bar>q\<bar> - 52) (- 1074);
               r = of_int (round_even (\<bar>q\<bar> / 2 powi e)) * 2 powi e
           in if 2 powi 1024 \<le> r then (if 0 < q then Pos_inf else Neg_inf)
              else if r = 0 then (if 0 < q then Finite_num 0 else Neg_zero)
              else Finite_num (if 0 < q then r else - r))"

text \<open>The sign bit, the test \<^verbatim>\<open>x === 0\<close> (true of both zeros), and the infinite values.\<close>

definition negative :: "number \<Rightarrow> bool" where
  "negative x =
     (case x of Finite_num a \<Rightarrow> a < 0 | Neg_zero \<Rightarrow> True | Pos_inf \<Rightarrow> False
      | Neg_inf \<Rightarrow> True | NaN \<Rightarrow> False)"

definition is_zero :: "number \<Rightarrow> bool" where
  "is_zero x = (x = Finite_num 0 \<or> x = Neg_zero)"

definition is_infinite :: "number \<Rightarrow> bool" where
  "is_infinite x = (x = Pos_inf \<or> x = Neg_inf)"

definition signed_zero :: "bool \<Rightarrow> number" where
  "signed_zero s = (if s then Neg_zero else Finite_num 0)"

definition signed_infinity :: "bool \<Rightarrow> number" where
  "signed_infinity s = (if s then Neg_inf else Pos_inf)"

definition value_of :: "number \<Rightarrow> rat" where
  "value_of x = (case x of Finite_num a \<Rightarrow> a | _ \<Rightarrow> 0)"

text \<open>
  The operator \<^verbatim>\<open>+\<close> on numbers. An earlier equation wins: \<^verbatim>\<open>NaN\<close> is contagious,
  opposite infinities give \<^verbatim>\<open>NaN\<close>, an infinity absorbs, a negative zero is neutral (two
  of them give a negative zero), and two finite numbers give their rounded sum, which is
  the positive zero when the exact sum is 0.
\<close>

fun add_js :: "number \<Rightarrow> number \<Rightarrow> number" where
  "add_js NaN y = NaN"
| "add_js x NaN = NaN"
| "add_js Pos_inf Neg_inf = NaN"
| "add_js Neg_inf Pos_inf = NaN"
| "add_js Pos_inf y = Pos_inf"
| "add_js x Pos_inf = Pos_inf"
| "add_js Neg_inf y = Neg_inf"
| "add_js x Neg_inf = Neg_inf"
| "add_js Neg_zero y = y"
| "add_js x Neg_zero = x"
| "add_js (Finite_num a) (Finite_num b) = round64 (a + b)"

text \<open>The operator \<^verbatim>\<open>*\<close>: the sign of the result is the exclusive or of the signs; an
  infinity times a zero is \<^verbatim>\<open>NaN\<close>.\<close>

definition multiply_js :: "number \<Rightarrow> number \<Rightarrow> number" where
  "multiply_js x y =
     (if x = NaN \<or> y = NaN then NaN
      else if (is_infinite x \<and> is_zero y) \<or> (is_zero x \<and> is_infinite y) then NaN
      else if is_infinite x \<or> is_infinite y then signed_infinity (negative x \<noteq> negative y)
      else if is_zero x \<or> is_zero y then signed_zero (negative x \<noteq> negative y)
      else round64 (value_of x * value_of y))"

text \<open>The operator \<^verbatim>\<open>/\<close>: an infinity over an infinity and a zero over a zero are
  \<^verbatim>\<open>NaN\<close>; any other division by a zero is an infinity.\<close>

definition divide_js :: "number \<Rightarrow> number \<Rightarrow> number" where
  "divide_js x y =
     (if x = NaN \<or> y = NaN then NaN
      else if (is_infinite x \<and> is_infinite y) \<or> (is_zero x \<and> is_zero y) then NaN
      else if is_infinite x \<or> is_zero y then signed_infinity (negative x \<noteq> negative y)
      else if is_infinite y \<or> is_zero x then signed_zero (negative x \<noteq> negative y)
      else round64 (value_of x / value_of y))"

text \<open>\<^verbatim>\<open>Number(x)\<close> on a value of type \<^verbatim>\<open>number | ""\<close>: \<^verbatim>\<open>Number("")\<close> is 0.\<close>

fun Number :: "nota \<Rightarrow> rat" where
  "Number Vazia = 0"
| "Number (Nota x) = x"

subsection \<open>The index calculator\<close>

text \<open>The local \<^verbatim>\<open>concl\<close> of \<^verbatim>\<open>calcIRA\<close>:
  \<^verbatim>\<open>courses.filter(c => c.status !== "A cursar" && c.nota !== "")\<close>.\<close>

definition concl :: "Course list \<Rightarrow> Course list" where
  "concl courses = filter (\<lambda>c. status c \<noteq> A_cursar \<and> nota c \<noteq> Vazia) courses"

text \<open>The two running sums of \<^verbatim>\<open>calcIRA\<close>, as functions of the filtered list:
  \<^verbatim>\<open>concl.reduce((acc, c) => acc + Number(c.nota) * c.ch, 0)\<close> and
  \<^verbatim>\<open>concl.reduce((acc, c) => acc + c.ch, 0)\<close>, each step in binary64.\<close>

definition somaP :: "Course list \<Rightarrow> number" where
  "somaP cs =
     foldl (\<lambda>acc c. add_js acc (multiply_js (Finite_num (Number (nota c))) (Finite_num (ch c))))
       (Finite_num 0) cs"

definition somaCH :: "Course list \<Rightarrow> number" where
  "somaCH cs = foldl (\<lambda>acc c. add_js acc (Finite_num (ch c))) (Finite_num 0) cs"

definition calcIRA :: "Course list \<Rightarrow> number" where
  "calcIRA courses =
     (if is_zero (somaCH (concl courses)) then Finite_num 0
      else divide_js (somaP (concl courses)) (somaCH (concl courses)))"

subsection \<open>Validation\<close>

text \<open>White space as \<^verbatim>\<open>String.prototype.trim\<close> sees it, among the code units below 256:
  tab, line feed, vertical tab, form feed, carriage return, space and no-break space.\<close>

definition is_space :: "char \<Rightarrow> bool" where
  "is_space c = ((of_char c :: nat) \<in> {9, 10, 11, 12, 13, 32, 160})"

definition trim :: "string \<Rightarrow> string" where
  "trim s = rev (dropWhile is_space (rev (dropWhile is_space s)))"

text \<open>The class \<^verbatim>\<open>\d\<close> of a regular expression without the unicode flag: the ASCII digits.\<close>

definition is_digit :: "char \<Rightarrow> bool" where
  "is_digit c = (48 \<le> (of_char c :: nat) \<and> (of_char c :: nat) \<le> 57)"

text \<open>\<^verbatim>\<open>s.match(/^\d{4}\.[12]$/)\<close> is not null: without the multiline flag the anchors are
  the two ends of the string, so the string has exactly six code units.\<close>

fun match_periodo :: "string \<Rightarrow> bool" where
  "match_periodo [a, b, c, d, e, f] =
     (is_digit a \<and> is_digit b \<and> is_digit c \<and> is_digit d \<and> e = CHR ''.''
      \<and> (f = CHR ''1'' \<or> f = CHR ''2''))"
| "match_periodo _ = False"

text \<open>The four messages of \<^verbatim>\<open>validateCourse\<close> and the three of the operations. The
  accented letters are the code units 0xE9, 0xF3, 0xE1 and 0xED.\<close>

definition msg_nome :: string where
  "msg_nome = ''Nome da disciplina '' @ [CHR 0xE9] @ '' obrigat'' @ [CHR 0xF3] @ ''rio''"

definition msg_ch :: string where
  "msg_ch = ''Carga hor'' @ [CHR 0xE1] @ ''ria deve ser maior que zero''"

definition msg_nota :: string where
  "msg_nota = ''Nota deve estar entre 0 e 10 para disciplinas cursadas''"

definition msg_periodo :: string where
  "msg_periodo = ''Per'' @ [CHR 0xED] @ ''odo deve estar no formato AAAA.S (ex: 2025.1)''"

definition msg_adicionada :: string where
  "msg_adicionada = ''Disciplina adicionada com sucesso''"

definition msg_atualizada :: string where
  "msg_atualizada = ''Disciplina atualizada com sucesso''"

definition msg_removida :: string where
  "msg_removida = ''Disciplina removida com sucesso''"

definition erro :: "string \<Rightarrow> Notification" where
  "erro m = \<lparr>message = m, ntype = Error\<rparr>"

definition sucesso :: "string \<Rightarrow> Notification" where
  "sucesso m = \<lparr>message = m, ntype = Success\<rparr>"

text \<open>
  \<^verbatim>\<open>validateCourse(course)\<close>, on an object whose properties may be absent. The result is
  the boolean returned with the notifications emitted on the way, or the \<^verbatim>\<open>TypeError\<close> of
  calling \<^verbatim>\<open>trim\<close> or \<^verbatim>\<open>match\<close> on \<^verbatim>\<open>undefined\<close>. A comparison with \<^verbatim>\<open>undefined\<close>
  (\<^verbatim>\<open>undefined <= 0\<close>, \<^verbatim>\<open>Number(undefined) < 0\<close>, \<^verbatim>\<open>undefined === "Cursada"\<close>) is false.
\<close>

definition validateCourse :: "Partial_Course \<Rightarrow> exn + (bool \<times> Notification list)" where
  "validateCourse course =
     (case p_nome course of
        None \<Rightarrow> Inl TypeError
      | Some n \<Rightarrow>
          if trim n = [] then Inr (False, [erro msg_nome])
          else if (case p_ch course of None \<Rightarrow> False | Some h \<Rightarrow> h \<le> 0)
            then Inr (False, [erro msg_ch])
          else if p_status course = Some Cursada \<and>
                  (case p_nota course of
                     None \<Rightarrow> False
                   | Some n \<Rightarrow> n = Vazia \<or> Number n < 0 \<or> 10 < Number n)
            then Inr (False, [erro msg_nota])
          else (case p_periodo course of
                  None \<Rightarrow> Inl TypeError
                | Some p \<Rightarrow>
                    if \<not> match_periodo p then Inr (False, [erro msg_periodo])
                    else Inr (True, [])))"

text \<open>A record of type \<^verbatim>\<open>Course\<close> seen as an object: every property is present.\<close>

definition as_object :: "Course \<Rightarrow> Partial_Course" where
  "as_object c =
     \<lparr>p_id = Some (id_c c), p_nome = Some (nome c), p_ch = Some (ch c),
      p_nota = Some (nota c), p_periodo = Some (periodo c), p_status = Some (status c)\<rparr>"

subsection \<open>The planner\<close>

text \<open>The state that the closures of \<^verbatim>\<open>Planner\<close> read and set: the collection
  \<^verbatim>\<open>courses\<close>, the draft \<^verbatim>\<open>novo\<close>, and the notifications handed to \<^verbatim>\<open>addNotification\<close>
  so far, oldest first.\<close>

record Planner =
  courses :: "Course list"
  novo :: Course
  notifications :: "Notification list"

text \<open>\<^verbatim>\<open>addCourse()\<close>; \<open>g1\<close> and \<open>g2\<close> are the two draws of \<^verbatim>\<open>uuid()\<close>, for the new record
  and for the next draft.\<close>

definition addCourse :: "string \<Rightarrow> string \<Rightarrow> Planner \<Rightarrow> exn + Planner" where
  "addCourse g1 g2 st =
     (case validateCourse (as_object (novo st)) of
        Inl e \<Rightarrow> Inl e
      | Inr (ok, ns) \<Rightarrow>
          if \<not> ok then Inr (st\<lparr>notifications := notifications st @ ns\<rparr>)
          else Inr \<lparr>courses = (novo st)\<lparr>id_c := g1\<rparr> # courses st,
                    novo = \<lparr>id_c = g2, nome = [], ch = 64, nota = Vazia,
                            periodo = periodo (novo st), status = A_cursar\<rparr>,
                    notifications = notifications st @ ns @ [sucesso msg_adicionada]\<rparr>)"

text \<open>The spread \<^verbatim>\<open>{...c, ...patch}\<close> of a record and a patch: a property of the patch
  wins, an absent one keeps the record's value.\<close>

definition spread :: "Course \<Rightarrow> Partial_Course \<Rightarrow> Course" where
  "spread c patch =
     \<lparr>id_c = (case p_id patch of None \<Rightarrow> id_c c | Some v \<Rightarrow> v),
      nome = (case p_nome patch of None \<Rightarrow> nome c | Some v \<Rightarrow> v),
      ch = (case p_ch patch of None \<Rightarrow> ch c | Some v \<Rightarrow> v),
      nota = (case p_nota patch of None \<Rightarrow> nota c | Some v \<Rightarrow> v),
      periodo = (case p_periodo patch of None \<Rightarrow> periodo c | Some v \<Rightarrow> v),
      status = (case p_status patch of None \<Rightarrow> status c | Some v \<Rightarrow> v)\<rparr>"

text \<open>
  \<^verbatim>\<open>update(id, patch)\<close>. \<^verbatim>\<open>courses.find\<close> yields the first record with the id, or
  \<^verbatim>\<open>undefined\<close>; spreading \<^verbatim>\<open>undefined\<close> contributes no property, so the object validated
  is then the patch alone. In that case no record satisfies \<^verbatim>\<open>c.id === id\<close>, and
  \<^verbatim>\<open>courses.map(c => c.id === id ? updatedCourse : c)\<close> keeps every record.
\<close>

definition update :: "string \<Rightarrow> Partial_Course \<Rightarrow> Planner \<Rightarrow> exn + Planner" where
  "update i patch st =
     (case find (\<lambda>c. id_c c = i) (courses st) of
        None \<Rightarrow>
          (case validateCourse patch of
             Inl e \<Rightarrow> Inl e
           | Inr (ok, ns) \<Rightarrow>
               if \<not> ok then Inr (st\<lparr>notifications := notifications st @ ns\<rparr>)
               else Inr (st\<lparr>courses := map (\<lambda>c. c) (courses st),
                             notifications := notifications st @ ns @ [sucesso msg_atualizada]\<rparr>))
      | Some c0 \<Rightarrow>
          (let updatedCourse = spread c0 patch in
           case validateCourse (as_object updatedCourse) of
             Inl e \<Rightarrow> Inl e
           | Inr (ok, ns) \<Rightarrow>
               if \<not> ok then Inr (st\<lparr>notifications := notifications st @ ns\<rparr>)
               else Inr (st\<lparr>courses := map (\<lambda>c. if id_c c = i then updatedCourse else c) (courses st),
                             notifications := notifications st @ ns @ [sucesso msg_atualizada]\<rparr>)))"

text \<open>\<^verbatim>\<open>remove(id)\<close>.\<close>

definition remove :: "string \<Rightarrow> Planner \<Rightarrow> Planner" where
  "remove i st =
     st\<lparr>courses := filter (\<lambda>c. id_c c \<noteq> i) (courses st),
        notifications := notifications st @ [sucesso msg_removida]\<rparr>"

text \<open>\<^verbatim>\<open>setNovo(c)\<close>, which the input fields of the form call on every edit of the draft.\<close>

definition setNovo :: "Course \<Rightarrow> Planner \<Rightarrow> Planner" where
  "setNovo c st = st\<lparr>novo := c\<rparr>"

text \<open>\<^verbatim>\<open>seedData\<close>, with the three draws of \<^verbatim>\<open>uuid()\<close> as arguments.\<close>

definition seedData :: "string \<Rightarrow> string \<Rightarrow> string \<Rightarrow> Course list" where
  "seedData g1 g2 g3 =
     [\<lparr>id_c = g1, nome = ''Qu'' @ [CHR 0xED] @ ''mica Inorg'' @ [CHR 0xE2] @ ''nica (128h)'',
       ch = 128, nota = Nota 7, periodo = ''2025.1'', status = Cursada\<rparr>,
      \<lparr>id_c = g2, nome = ''Qu'' @ [CHR 0xED] @ ''mica Anal'' @ [CHR 0xED] @ ''tica (CLAE)'',
       ch = 64, nota = Nota 8, periodo = ''2025.2'', status = Em_andamento\<rparr>,
      \<lparr>id_c = g3, nome = ''Termodin'' @ [CHR 0xE2] @ ''mica de Processos'',
       ch = 64, nota = Vazia, periodo = ''2026.1'', status = A_cursar\<rparr>]"

text \<open>The planner as it is first rendered on the seed: \<open>g\<close> is the draw for the draft's id
  and \<open>year\<close> the text of \<^verbatim>\<open>new Date().getFullYear()\<close>.\<close>

definition seedPlanner :: "string \<Rightarrow> string \<Rightarrow> string \<Rightarrow> string \<Rightarrow> string \<Rightarrow> Planner" where
  "seedPlanner g1 g2 g3 g year =
     \<lparr>courses = seedData g1 g2 g3,
      novo = \<lparr>id_c = g, nome = [], ch = 64, nota = Vazia, periodo = year @ ''.1'',
              status = A_cursar\<rparr>,
      notifications = []\<rparr>"

text \<open>
  What the user can do to the planner: edit the draft, press the add button, edit a cell
  of the table, confirm a removal. The arguments are those of the handler, together with
  the draws of \<^verbatim>\<open>uuid()\<close> it makes. A handler that throws leaves the state as it was.
\<close>

datatype action =
    SetNovo Course
  | AddCourse string string
  | Update string Partial_Course
  | Remove string

fun step :: "Planner \<Rightarrow> action \<Rightarrow> Planner" where
  "step st (SetNovo c) = setNovo c st"
| "step st (AddCourse g1 g2) = (case addCourse g1 g2 st of Inl e \<Rightarrow> st | Inr st' \<Rightarrow> st')"
| "step st (Update i patch) = (case update i patch st of Inl e \<Rightarrow> st | Inr st' \<Rightarrow> st')"
| "step st (Remove i) = remove i st"

text \<open>The state after a sequence of actions, the first of the list first.\<close>

definition run :: "Planner \<Rightarrow> action list \<Rightarrow> Planner" where
  "run st acts = foldl step st acts"

subsection \<open>The specification's reading of validation and of credit hours\<close>

text \<open>
  The specification's reading of validation, to be compared with \<^verbatim>\<open>validateCourse\<close>:
  four rules in a fixed order, each yielding its message when violated, and the first
  violation deciding the outcome.
\<close>

definition rule_name :: "Course \<Rightarrow> string option" where
  "rule_name c = (if trim (nome c) = [] then Some msg_nome else None)"

definition rule_creditHours :: "Course \<Rightarrow> string option" where
  "rule_creditHours c = (if 0 < ch c then None else Some msg_ch)"

definition rule_grade :: "Course \<Rightarrow> string option" where
  "rule_grade c =
     (if status c = Cursada
      then (case nota c of
              Vazia \<Rightarrow> Some msg_nota
            | Nota g \<Rightarrow> if 0 \<le> g \<and> g \<le> 10 then None else Some msg_nota)
      else None)"

definition rule_term :: "Course \<Rightarrow> string option" where
  "rule_term c = (if match_periodo (periodo c) then None else Some msg_periodo)"

definition rules :: "(Course \<Rightarrow> string option) list" where
  "rules = [rule_name, rule_creditHours, rule_grade, rule_term]"

fun first_violation :: "(Course \<Rightarrow> string option) list \<Rightarrow> Course \<Rightarrow> string option" where
  "first_violation [] c = None"
| "first_violation (r # rs) c =
     (case r c of Some m \<Rightarrow> Some m | None \<Rightarrow> first_violation rs c)"

text \<open>The specification's "integer" for a number: it equals its own floor.\<close>

definition is_integer :: "rat \<Rightarrow> bool" where
  "is_integer q = (of_int \<lfloor>q\<rfloor> = q)"

subsection \<open>Concrete records, patches and states\<close>

text \<open>The records of the specification's scenarios, the patch without properties, and
  the states used to run the operations on concrete inputs.\<close>

definition physics :: Course where
  "physics = \<lparr>id_c = ''k1'', nome = ''Physics I'', ch = 64, nota = Nota 8,
              periodo = ''2025.1'', status = Cursada\<rparr>"

definition calc2 :: Course where
  "calc2 = \<lparr>id_c = ''k2'', nome = ''Calc II'', ch = 64, nota = Nota 6,
            periodo = ''2025.1'', status = Cursada\<rparr>"

definition future :: Course where
  "future = \<lparr>id_c = ''k3'', nome = ''Future Course'', ch = 32, nota = Vazia,
             periodo = ''2026.1'', status = A_cursar\<rparr>"

definition bad :: Course where
  "bad = \<lparr>id_c = ''k4'', nome = ''Bad'', ch = 0, nota = Nota 5,
          periodo = ''2025.1'', status = Cursada\<rparr>"

definition empty_patch :: Partial_Course where
  "empty_patch = \<lparr>p_id = None, p_nome = None, p_ch = None, p_nota = None,
                  p_periodo = None, p_status = None\<rparr>"


definition seed0 :: Planner where
  "seed0 = seedPlanner ''s1'' ''s2'' ''s3'' ''d0'' ''2025''"

definition lab_draft :: Course where
  "lab_draft = \<lparr>id_c = ''d0'', nome = ''Lab'', ch = 3 / 2, nota = Vazia,
                periodo = ''2025.1'', status = A_cursar\<rparr>"

definition lab_state :: Planner where
  "lab_state =
     \<lparr>courses = lab_draft\<lparr>id_c := ''n1''\<rparr> # seedData ''s1'' ''s2'' ''s3'',
      novo = \<lparr>id_c = ''n2'', nome = [], ch = 64, nota = Vazia, periodo = ''2025.1'',
              status = A_cursar\<rparr>,
      notifications = [sucesso msg_adicionada]\<rparr>"

definition over_draft :: Course where
  "over_draft = \<lparr>id_c = ''d0'', nome = ''Lab'', ch = 64, nota = Nota 100,
                 periodo = ''2025.1'', status = Em_andamento\<rparr>"

definition over_state :: Planner where
  "over_state =
     \<lparr>courses = over_draft\<lparr>id_c := ''n1''\<rparr> # seedData ''s1'' ''s2'' ''s3'',
      novo = \<lparr>id_c = ''n2'', nome = [], ch = 64, nota = Vazia, periodo = ''2025.1'',
              status = A_cursar\<rparr>,
      notifications = [sucesso msg_adicionada]\<rparr>"





subsection \<open>Evaluating validation on concrete records\<close>

lemma trim_Cons_nonspace: "\<not> is_space x \<Longrightarrow> trim (x # xs) \<noteq> []"
  by (simp add: trim_def)

lemma is_space_simps:
  "is_space c = (of_char c = (9::nat) \<or> of_char c = (10::nat) \<or> of_char c = (11::nat)
     \<or> of_char c = (12::nat) \<or> of_char c = (13::nat) \<or> of_char c = (32::nat)
     \<or> of_char c = (160::nat))"
  by (simp add: is_space_def)

lemmas concrete_validation =
  validateCourse_def as_object_def trim_Cons_nonspace is_space_simps is_digit_def

subsection \<open>The binary logarithm and the two roundings\<close>

lemma powi_of_int_nat: "0 \<le> k \<Longrightarrow> (2::rat) powi k = of_int (2 ^ nat k)"
  by (simp add: power_int_def)

lemma ilog2_ge1:
  assumes "1 \<le> x"
  shows "2 powi (ilog2 x) \<le> x \<and> x < 2 powi (ilog2 x + 1)"
proof -
  let ?f = "\<lfloor>x\<rfloor>"
  have f: "0 < ?f"
    using assms by (simp add: zero_less_floor)
  have b: "2 ^ nat (bitlen ?f - 1) \<le> ?f" "?f < 2 ^ nat (bitlen ?f)"
    using bitlen_bounds [OF f] by simp_all
  have b1: "1 \<le> bitlen ?f"
    using f bitlen_eq_zero_iff [of ?f] bitlen_nonneg [of ?f] by linarith
  have e: "ilog2 x = bitlen ?f - 1"
    using assms by (simp add: ilog2_def)
  have "(2::rat) powi (bitlen ?f - 1) = of_int (2 ^ nat (bitlen ?f - 1))"
    using b1 by (intro powi_of_int_nat) simp
  also have "\<dots> \<le> of_int ?f"
    using b(1) by (simp only: of_int_le_iff)
  also have "\<dots> \<le> x"
    by simp
  finally have lo: "2 powi (ilog2 x) \<le> x"
    by (simp add: e)
  have "?f + 1 \<le> 2 ^ nat (bitlen ?f)"
    using b(2) by simp
  then have "(of_int (?f + 1) :: rat) \<le> of_int (2 ^ nat (bitlen ?f))"
    by (simp only: of_int_le_iff)
  moreover have "x < of_int (?f + 1)"
    by simp linarith
  moreover have "(2::rat) powi (bitlen ?f) = of_int (2 ^ nat (bitlen ?f))"
    using b1 by (intro powi_of_int_nat) simp
  ultimately have "x < 2 powi (bitlen ?f)"
    by simp
  then have hi: "x < 2 powi (ilog2 x + 1)"
    by (simp add: e)
  from lo hi show ?thesis ..
qed

lemma ilog2_lt1:
  assumes "0 < x" and "x < 1"
  shows "2 powi (ilog2 x) \<le> x \<and> x < 2 powi (ilog2 x + 1)"
proof -
  let ?y = "1 / x"
  let ?N = "\<lceil>?y\<rceil> - 1"
  let ?B = "bitlen ?N"
  have y: "1 < ?y"
    using assms by simp
  have N: "of_int ?N < ?y" "?y \<le> of_int ?N + 1"
    using ceiling_correct [of ?y] by simp_all
  have Npos: "0 < ?N"
    using y by (simp add: less_ceiling_iff)
  have b: "2 ^ nat (?B - 1) \<le> ?N" "?N < 2 ^ nat ?B"
    using bitlen_bounds [OF Npos] by simp_all
  have b1: "1 \<le> ?B"
    using Npos bitlen_eq_zero_iff [of ?N] bitlen_nonneg [of ?N] by linarith
  have e: "ilog2 x = - ?B"
    using assms by (simp add: ilog2_def)
  have pB: "(2::rat) powi ?B = of_int (2 ^ nat ?B)"
    using b1 by (intro powi_of_int_nat) simp
  have pB1: "(2::rat) powi (?B - 1) = of_int (2 ^ nat (?B - 1))"
    using b1 by (intro powi_of_int_nat) simp
  have "?N + 1 \<le> 2 ^ nat ?B"
    using b(2) by simp
  then have "(of_int (?N + 1) :: rat) \<le> of_int (2 ^ nat ?B)"
    by (simp only: of_int_le_iff)
  moreover have "?y \<le> of_int (?N + 1)"
    using N(2) by simp
  ultimately have "?y \<le> of_int (2 ^ nat ?B)"
    by (rule order_trans [rotated])
  then have "?y \<le> 2 powi ?B"
    by (simp only: pB)
  then have "1 \<le> x * 2 powi ?B"
    using assms(1) by (simp add: field_simps)
  then have "1 / 2 powi ?B \<le> x"
    by (simp add: field_simps)
  then have lo: "2 powi (ilog2 x) \<le> x"
    by (simp add: e power_int_minus_divide)
  have "(of_int (2 ^ nat (?B - 1)) :: rat) \<le> of_int ?N"
    using b(1) by (simp only: of_int_le_iff)
  then have "of_int (2 ^ nat (?B - 1)) < ?y"
    using N(1) by (rule le_less_trans)
  then have "2 powi (?B - 1) < ?y"
    by (simp only: pB1)
  then have "x * 2 powi (?B - 1) < 1"
    using assms(1) by (simp add: field_simps)
  then have "x < 1 / 2 powi (?B - 1)"
    by (simp add: field_simps)
  moreover have "(2::rat) powi (- ?B + 1) = 1 / 2 powi (?B - 1)"
    using power_int_minus_divide [of "2::rat" "?B - 1"] by simp
  ultimately have hi: "x < 2 powi (ilog2 x + 1)"
    by (simp add: e)
  from lo hi show ?thesis ..
qed

lemma ilog2_bounds:
  "0 < x \<Longrightarrow> 2 powi (ilog2 x) \<le> x \<and> x < 2 powi (ilog2 x + 1)"
  using ilog2_ge1 [of x] ilog2_lt1 [of x] by (cases "1 \<le> x") simp_all

lemma ilog2_less:
  assumes "0 < x" and "x < 2 powi m"
  shows "ilog2 x < m"
proof (rule ccontr)
  assume "\<not> ilog2 x < m"
  then have "m \<le> ilog2 x"
    by simp
  then have "(2::rat) powi m \<le> 2 powi (ilog2 x)"
    by (intro power_int_increasing) simp_all
  also have "\<dots> \<le> x"
    using ilog2_bounds [OF assms(1)] by simp
  finally show False
    using assms(2) by simp
qed



lemma round_even_of_int: "round_even (of_int m) = m"
  by (simp add: round_even_def)


lemma round_even_tie:
  assumes "x = of_int m + 1 / 2"
  shows "round_even x = (if even m then m else m + 1)"
proof -
  have f: "\<lfloor>x\<rfloor> = m"
    using assms by (intro floor_unique) simp_all
  show ?thesis
    by (simp add: round_even_def Let_def f) (simp add: assms)
qed


lemma round64_exact:
  assumes q: "q = of_int n * 2 powi k" and n: "n \<noteq> 0" "\<bar>n\<bar> < 2 ^ 53"
    and k: "- 1074 \<le> k" and fin: "\<bar>q\<bar> < 2 powi 1024"
  shows "round64 q = Finite_num q"
proof -
  let ?e = "max (ilog2 \<bar>q\<bar> - 52) (- 1074)"
  have q0: "q \<noteq> 0"
    using q n(1) by simp
  have absq: "\<bar>q\<bar> = of_int \<bar>n\<bar> * 2 powi k"
    by (simp add: q abs_mult)
  have "(of_int \<bar>n\<bar> :: rat) < of_int (2 ^ 53)"
    using n(2) by (simp only: of_int_less_iff)
  then have "\<bar>q\<bar> < 2 ^ 53 * 2 powi k"
    unfolding absq by (intro mult_strict_right_mono) simp_all
  also have "\<dots> = 2 powi (k + 53)"
    by (simp add: power_int_add)
  finally have "ilog2 \<bar>q\<bar> < k + 53"
    using q0 by (intro ilog2_less) simp_all
  then have ek: "?e \<le> k"
    using k by simp
  then have d: "0 \<le> k - ?e"
    by simp
  have "(2::rat) powi k / 2 powi ?e = 2 powi (k - ?e)"
    using power_int_diff [of "2::rat" k ?e] by simp
  then have "of_int \<bar>n\<bar> * ((2::rat) powi k / 2 powi ?e) = of_int \<bar>n\<bar> * 2 powi (k - ?e)"
    by (rule arg_cong)
  then have "of_int \<bar>n\<bar> * (2::rat) powi k / 2 powi ?e = of_int \<bar>n\<bar> * 2 powi (k - ?e)"
    by (simp only: times_divide_eq_right)
  then have "\<bar>q\<bar> / 2 powi ?e = of_int \<bar>n\<bar> * 2 powi (k - ?e)"
    by (simp only: absq)
  also have "\<dots> = of_int (\<bar>n\<bar> * 2 ^ nat (k - ?e))"
    using d by (simp add: powi_of_int_nat)
  finally have "round_even (\<bar>q\<bar> / 2 powi ?e) = \<bar>n\<bar> * 2 ^ nat (k - ?e)"
      and "of_int (\<bar>n\<bar> * 2 ^ nat (k - ?e)) = \<bar>q\<bar> / 2 powi ?e"
    by (simp_all only: round_even_of_int)
  then have r: "of_int (round_even (\<bar>q\<bar> / 2 powi ?e)) * 2 powi ?e = \<bar>q\<bar>"
    by simp
  have "\<not> 2 powi 1024 \<le> \<bar>q\<bar>"
    using fin by simp
  moreover have "\<bar>q\<bar> \<noteq> 0"
    using q0 by simp
  moreover have "(if 0 < q then \<bar>q\<bar> else - \<bar>q\<bar>) = q"
    by simp
  ultimately show ?thesis
    using q0 unfolding round64_def Let_def r by (simp only: if_False)
qed

lemma round64_of_int:
  assumes "\<bar>n\<bar> < 2 ^ 53"
  shows "round64 (of_int n) = Finite_num (of_int n)"
proof (cases "n = 0")
  case True
  then show ?thesis
    by (simp add: round64_def)
next
  case False
  have "(of_int \<bar>n\<bar> :: rat) < of_int (2 ^ 53)"
    using assms by (simp only: of_int_less_iff)
  also have "\<dots> < 2 powi 1024"
    by simp
  finally have "\<bar>of_int n :: rat\<bar> < 2 powi 1024"
    by simp
  then show ?thesis
    using False assms by (intro round64_exact [where n = n and k = 0]) simp_all
qed



lemma is_integer_iff: "is_integer q \<longleftrightarrow> q \<in> \<int>"
proof
  assume "is_integer q"
  then have "of_int \<lfloor>q\<rfloor> = q"
    unfolding is_integer_def .
  then show "q \<in> \<int>"
    by (metis Ints_of_int)
next
  assume "q \<in> \<int>"
  then show "is_integer q"
    by (auto simp: is_integer_def elim: Ints_cases)
qed

lemma round64_integer:
  assumes "is_integer q" and "\<bar>q\<bar> < 2 ^ 53"
  shows "round64 q = Finite_num q"
proof -
  have "of_int \<lfloor>q\<rfloor> = q"
    using assms(1) unfolding is_integer_def .
  then have q: "q = of_int \<lfloor>q\<rfloor>"
    by (rule sym)
  have "(of_int \<bar>\<lfloor>q\<rfloor>\<bar> :: rat) = \<bar>q\<bar>"
    using q by (metis of_int_abs)
  also have "\<dots> < of_int (2 ^ 53)"
    using assms(2) by simp
  finally have "\<bar>\<lfloor>q\<rfloor>\<bar> < 2 ^ 53"
    by (simp only: of_int_less_iff)
  then have "round64 (of_int \<lfloor>q\<rfloor>) = Finite_num (of_int \<lfloor>q\<rfloor>)"
    by (rule round64_of_int)
  then show ?thesis
    using q by simp
qed

subsection \<open>Sums and products that do not round\<close>

lemma add_js_integer:
  assumes "is_integer a" and "is_integer b" and "\<bar>a + b\<bar> < 2 ^ 53"
  shows "add_js (Finite_num a) (Finite_num b) = Finite_num (a + b)"
proof -
  have "is_integer (a + b)"
    using assms(1,2) by (simp add: is_integer_iff)
  then show ?thesis
    using assms(3) by (simp add: round64_integer)
qed

lemma multiply_js_integer:
  assumes "is_integer a" and "is_integer b" and "0 < b" and "\<bar>a * b\<bar> < 2 ^ 53"
  shows "multiply_js (Finite_num a) (Finite_num b) = Finite_num (a * b)"
proof (cases "a = 0")
  case True
  then show ?thesis
    using assms(3)
    by (simp add: multiply_js_def is_zero_def is_infinite_def negative_def signed_zero_def)
next
  case False
  have "is_integer (a * b)"
    using assms(1,2) by (simp add: is_integer_iff)
  then have "round64 (a * b) = Finite_num (a * b)"
    using assms(4) by (rule round64_integer)
  then show ?thesis
    using False assms(3) by (simp add: multiply_js_def is_zero_def is_infinite_def value_of_def)
qed

lemma divide_js_pos:
  assumes "0 < h"
  shows "divide_js (Finite_num p) (Finite_num h) = round64 (p / h)"
  using assms
  by (simp add: divide_js_def is_zero_def is_infinite_def value_of_def negative_def
      signed_zero_def round64_def)

lemma foldl_add_js_exact:
  assumes "\<forall>x \<in> set xs. g x = Finite_num (f x) \<and> is_integer (f x)"
    and "is_integer a" and "\<bar>a\<bar> + (\<Sum>x\<leftarrow>xs. \<bar>f x\<bar>) < 2 ^ 53"
  shows "foldl (\<lambda>acc x. add_js acc (g x)) (Finite_num a) xs = Finite_num (a + (\<Sum>x\<leftarrow>xs. f x))"
  using assms
proof (induction xs arbitrary: a)
  case Nil
  then show ?case by simp
next
  case (Cons x xs)
  have nn: "0 \<le> (\<Sum>x\<leftarrow>xs. \<bar>f x\<bar>)"
    by (rule sum_list_nonneg) auto
  have g: "g x = Finite_num (f x)" and i: "is_integer (f x)"
    using Cons.prems(1) by simp_all
  have b: "\<bar>a + f x\<bar> < 2 ^ 53"
    using Cons.prems(3) nn by simp
  have step: "add_js (Finite_num a) (g x) = Finite_num (a + f x)"
    unfolding g using Cons.prems(2) i b by (rule add_js_integer)
  have "is_integer (a + f x)"
    using Cons.prems(2) i by (simp add: is_integer_iff)
  moreover have "\<bar>a + f x\<bar> + (\<Sum>x\<leftarrow>xs. \<bar>f x\<bar>) < 2 ^ 53"
    using Cons.prems(3) by simp
  ultimately have
    "foldl (\<lambda>acc x. add_js acc (g x)) (Finite_num (a + f x)) xs
       = Finite_num (a + f x + (\<Sum>x\<leftarrow>xs. f x))"
    using Cons.prems(1) by (intro Cons.IH) simp_all
  then show ?case
    by (simp add: step add.assoc)
qed

lemma somaCH_exact:
  assumes "\<forall>c \<in> set cs. 0 \<le> ch c \<and> is_integer (ch c)" and "(\<Sum>c\<leftarrow>cs. ch c) < 2 ^ 53"
  shows "somaCH cs = Finite_num (\<Sum>c\<leftarrow>cs. ch c)"
proof -
  have "(\<Sum>c\<leftarrow>cs. \<bar>ch c\<bar>) = (\<Sum>c\<leftarrow>cs. ch c)"
    using assms(1) by (intro arg_cong [where f = sum_list] map_cong) simp_all
  then have "\<bar>0\<bar> + (\<Sum>c\<leftarrow>cs. \<bar>ch c\<bar>) < 2 ^ 53"
    using assms(2) by simp
  moreover have "\<forall>c \<in> set cs. Finite_num (ch c) = Finite_num (ch c) \<and> is_integer (ch c)"
    using assms(1) by simp
  moreover have "is_integer 0"
    by (simp add: is_integer_def)
  ultimately have
    "foldl (\<lambda>acc c. add_js acc (Finite_num (ch c))) (Finite_num 0) cs
       = Finite_num (0 + (\<Sum>c\<leftarrow>cs. ch c))"
    by (intro foldl_add_js_exact) simp_all
  then show ?thesis
    by (simp add: somaCH_def)
qed

lemma somaP_exact:
  assumes "\<forall>c \<in> set cs. 0 < ch c \<and> is_integer (ch c) \<and> is_integer (Number (nota c))"
    and "(\<Sum>c\<leftarrow>cs. \<bar>Number (nota c)\<bar> * ch c) < 2 ^ 53"
  shows "somaP cs = Finite_num (\<Sum>c\<leftarrow>cs. Number (nota c) * ch c)"
proof -
  let ?f = "\<lambda>c. Number (nota c) * ch c"
  let ?g = "\<lambda>c. multiply_js (Finite_num (Number (nota c))) (Finite_num (ch c))"
  have abs: "(\<Sum>c\<leftarrow>cs. \<bar>?f c\<bar>) = (\<Sum>c\<leftarrow>cs. \<bar>Number (nota c)\<bar> * ch c)"
    using assms(1) by (intro arg_cong [where f = sum_list] map_cong) (auto simp: abs_mult)
  have each: "\<bar>?f c\<bar> < 2 ^ 53" if "c \<in> set cs" for c
  proof -
    have "\<bar>?f c\<bar> \<le> (\<Sum>c\<leftarrow>cs. \<bar>?f c\<bar>)"
      using that by (intro member_le_sum_list) auto
    then show ?thesis
      using assms(2) abs by simp
  qed
  have "\<forall>c \<in> set cs. ?g c = Finite_num (?f c) \<and> is_integer (?f c)"
  proof
    fix c
    assume c: "c \<in> set cs"
    then have h: "0 < ch c" "is_integer (ch c)" "is_integer (Number (nota c))"
      using assms(1) by simp_all
    have "?g c = Finite_num (?f c)"
      using h(3,2,1) each [OF c] by (rule multiply_js_integer)
    moreover have "is_integer (?f c)"
      using h(2,3) by (simp add: is_integer_iff)
    ultimately show "?g c = Finite_num (?f c) \<and> is_integer (?f c)" ..
  qed
  moreover have "is_integer 0"
    by (simp add: is_integer_def)
  moreover have "\<bar>0\<bar> + (\<Sum>c\<leftarrow>cs. \<bar>?f c\<bar>) < 2 ^ 53"
    using assms(2) abs by simp
  ultimately have "foldl (\<lambda>acc c. add_js acc (?g c)) (Finite_num 0) cs
       = Finite_num (0 + (\<Sum>c\<leftarrow>cs. ?f c))"
    by (rule foldl_add_js_exact)
  then show ?thesis
    by (simp add: somaP_def)
qed

lemma somaCH_Nil: "somaCH [] = Finite_num 0"
  by (simp add: somaCH_def)

lemma calcIRA_concl_Nil: "concl cs = [] \<Longrightarrow> calcIRA cs = Finite_num 0"
  by (simp add: calcIRA_def somaCH_Nil is_zero_def)

subsection \<open>The index of a collection without qualifying records\<close>

lemma somaCH_zeros:
  assumes "\<forall>c \<in> set cs. ch c = 0"
  shows "somaCH cs = Finite_num 0"
proof -
  have "(\<Sum>c\<leftarrow>cs. ch c) = (\<Sum>c\<leftarrow>cs. 0)"
    using assms by (intro arg_cong [where f = sum_list] map_cong) simp_all
  then have z: "(\<Sum>c\<leftarrow>cs. ch c) = 0"
    by simp
  have "somaCH cs = Finite_num (\<Sum>c\<leftarrow>cs. ch c)"
    using assms by (intro somaCH_exact) (simp_all add: z is_integer_def)
  then show ?thesis
    by (simp add: z)
qed

text \<open>
  Claim C2. \<^verbatim>\<open>calcIRA\<close> returns 0 on the empty collection, on every collection in
  which each record has status \<^verbatim>\<open>"A cursar"\<close> or an empty grade, on every collection whose
  qualifying subset is empty, on every collection whose qualifying credit hours, summed
  as the code sums them, are zero, and on every collection whose qualifying credit hours
  are not negative and sum to 0. It never divides by zero: whenever it does not return
  that 0, its result is the quotient of the two sums, and the divisor is not zero.
\<close>

theorem calcIRA_total_zero:
  "calcIRA [] = Finite_num 0
   \<and> ((\<forall>c \<in> set cs. status c = A_cursar \<or> nota c = Vazia) \<longrightarrow> calcIRA cs = Finite_num 0)
   \<and> (filter (\<lambda>c. status c \<noteq> A_cursar \<and> nota c \<noteq> Vazia) cs = [] \<longrightarrow> calcIRA cs = Finite_num 0)
   \<and> (is_zero (somaCH (filter (\<lambda>c. status c \<noteq> A_cursar \<and> nota c \<noteq> Vazia) cs))
        \<longrightarrow> calcIRA cs = Finite_num 0)
   \<and> ((\<forall>c \<in> set (filter (\<lambda>c. status c \<noteq> A_cursar \<and> nota c \<noteq> Vazia) cs). 0 \<le> ch c)
        \<and> (\<Sum>c\<leftarrow>filter (\<lambda>c. status c \<noteq> A_cursar \<and> nota c \<noteq> Vazia) cs. ch c) = 0
        \<longrightarrow> calcIRA cs = Finite_num 0)
   \<and> (\<not> is_zero (somaCH (filter (\<lambda>c. status c \<noteq> A_cursar \<and> nota c \<noteq> Vazia) cs))
        \<longrightarrow> calcIRA cs =
              divide_js (somaP (filter (\<lambda>c. status c \<noteq> A_cursar \<and> nota c \<noteq> Vazia) cs))
                (somaCH (filter (\<lambda>c. status c \<noteq> A_cursar \<and> nota c \<noteq> Vazia) cs)))"
proof -
  have empty: "calcIRA [] = Finite_num 0"
    by (simp add: calcIRA_concl_Nil concl_def)
  have none: "concl cs = [] \<Longrightarrow> calcIRA cs = Finite_num 0"
    by (rule calcIRA_concl_Nil)
  have planned: "(\<forall>c \<in> set cs. status c = A_cursar \<or> nota c = Vazia) \<Longrightarrow> concl cs = []"
    by (auto simp: concl_def filter_empty_conv)
  have zero: "is_zero (somaCH (concl cs)) \<Longrightarrow> calcIRA cs = Finite_num 0"
    by (simp add: calcIRA_def)
  have exact: "calcIRA cs = Finite_num 0"
    if "\<forall>c \<in> set (concl cs). 0 \<le> ch c" and "(\<Sum>c\<leftarrow>concl cs. ch c) = 0"
  proof -
    have "\<forall>x \<in> set (map ch (concl cs)). 0 \<le> x"
      using that(1) by simp
    then have "\<forall>x \<in> set (map ch (concl cs)). x = 0"
      using that(2) by (simp only: sum_list_nonneg_eq_0_iff)
    then have "\<forall>c \<in> set (concl cs). ch c = 0"
      by simp
    then have "somaCH (concl cs) = Finite_num 0"
      by (rule somaCH_zeros)
    then show ?thesis
      by (simp add: calcIRA_def is_zero_def)
  qed
  have guard: "\<not> is_zero (somaCH (concl cs)) \<Longrightarrow>
      calcIRA cs = divide_js (somaP (concl cs)) (somaCH (concl cs))"
    by (simp add: calcIRA_def)
  show ?thesis
    using empty none planned zero exact guard unfolding concl_def by blast
qed

lemma round64_numeral:
  "(numeral w :: int) < 2 ^ 53 \<Longrightarrow> round64 (numeral w) = Finite_num (numeral w)"
  using round64_of_int [of "numeral w"] by simp

lemma calcIRA_physics: "calcIRA [physics] = Finite_num 8"
proof -
  have c: "concl [physics] = [physics]"
    by (simp add: concl_def physics_def)
  have h: "somaCH [physics] = Finite_num 64"
    by (simp add: somaCH_def physics_def round64_numeral)
  have "multiply_js (Finite_num 8) (Finite_num 64) = Finite_num 512"
    by (simp add: multiply_js_def is_zero_def is_infinite_def value_of_def round64_numeral)
  then have p: "somaP [physics] = Finite_num 512"
    by (simp add: somaP_def physics_def round64_numeral)
  have "divide_js (Finite_num 512) (Finite_num 64) = Finite_num 8"
    by (simp add: divide_js_pos round64_numeral)
  then show ?thesis
    by (simp add: calcIRA_def c h p is_zero_def)
qed

theorem calcIRA_total_zero_witness:
  "status future = A_cursar
   \<and> filter (\<lambda>c. status c \<noteq> A_cursar \<and> nota c \<noteq> Vazia) [future] = []
   \<and> is_zero (somaCH (filter (\<lambda>c. status c \<noteq> A_cursar \<and> nota c \<noteq> Vazia) [future]))
   \<and> (\<Sum>c\<leftarrow>filter (\<lambda>c. status c \<noteq> A_cursar \<and> nota c \<noteq> Vazia) [future]. ch c) = 0
   \<and> calcIRA [future] = Finite_num 0
   \<and> calcIRA [] = Finite_num 0
   \<and> filter (\<lambda>c. status c \<noteq> A_cursar \<and> nota c \<noteq> Vazia) [physics] = [physics]
   \<and> somaCH [physics] = Finite_num 64
   \<and> \<not> is_zero (somaCH [physics])
   \<and> calcIRA [physics] = divide_js (somaP [physics]) (somaCH [physics])
   \<and> calcIRA [physics] = Finite_num 8"
proof -
  have a: "status future = A_cursar"
    by (simp add: future_def)
  then have b: "\<forall>c \<in> set [future]. status c = A_cursar \<or> nota c = Vazia"
    by simp
  have c: "filter (\<lambda>c. status c \<noteq> A_cursar \<and> nota c \<noteq> Vazia) [future] = []"
    using a by simp
  have z: "is_zero (somaCH [])"
    by (simp add: somaCH_Nil is_zero_def)
  from calcIRA_total_zero [of "[future]"] b
  have d: "calcIRA [future] = Finite_num 0" and e: "calcIRA [] = Finite_num 0"
    by blast+
  have f: "filter (\<lambda>c. status c \<noteq> A_cursar \<and> nota c \<noteq> Vazia) [physics] = [physics]"
    by (simp add: physics_def)
  have h: "somaCH [physics] = Finite_num 64"
    by (simp add: somaCH_def physics_def round64_numeral)
  then have n: "\<not> is_zero (somaCH [physics])"
    by (simp add: is_zero_def)
  from calcIRA_total_zero [of "[physics]"] n
  have g: "calcIRA [physics] = divide_js (somaP [physics]) (somaCH [physics])"
    unfolding f by blast
  from a c z d e f h n g calcIRA_physics show ?thesis
    by simp
qed

subsection \<open>The index as a weighted mean\<close>



lemma sum_list_pos_nonempty:
  "xs \<noteq> [] \<Longrightarrow> \<forall>x \<in> set xs. 0 < f x \<Longrightarrow> 0 < (sum_list (map f xs) :: rat)"
proof (induction xs)
  case Nil
  then show ?case by simp
next
  case (Cons x xs)
  have "0 \<le> sum_list (map f xs)"
    using Cons.prems(2) by (intro sum_list_nonneg) (auto intro: less_imp_le)
  moreover have "0 < f x"
    using Cons.prems(2) by simp
  ultimately show ?case by simp
qed

lemma calcIRA_exact:
  assumes "concl cs \<noteq> []"
    and "\<forall>c \<in> set (concl cs). 0 < ch c \<and> is_integer (ch c) \<and> is_integer (Number (nota c))"
    and "(\<Sum>c\<leftarrow>concl cs. \<bar>Number (nota c)\<bar> * ch c) < 2 ^ 53"
    and "(\<Sum>c\<leftarrow>concl cs. ch c) < 2 ^ 53"
  shows "calcIRA cs =
           round64 ((\<Sum>c\<leftarrow>concl cs. Number (nota c) * ch c) / (\<Sum>c\<leftarrow>concl cs. ch c))"
    and "0 < (\<Sum>c\<leftarrow>concl cs. ch c)"
proof -
  have "\<forall>c \<in> set (concl cs). 0 < ch c"
    using assms(2) by simp
  with assms(1) show pos: "0 < (\<Sum>c\<leftarrow>concl cs. ch c)"
    by (rule sum_list_pos_nonempty)
  have "\<forall>c \<in> set (concl cs). 0 \<le> ch c \<and> is_integer (ch c)"
    using assms(2) by (auto intro: less_imp_le)
  then have h: "somaCH (concl cs) = Finite_num (\<Sum>c\<leftarrow>concl cs. ch c)"
    using assms(4) by (rule somaCH_exact)
  have p: "somaP (concl cs) = Finite_num (\<Sum>c\<leftarrow>concl cs. Number (nota c) * ch c)"
    using assms(2,3) by (rule somaP_exact)
  have "\<not> is_zero (somaCH (concl cs))"
    using pos by (simp add: h is_zero_def)
  then have "calcIRA cs = divide_js (somaP (concl cs)) (somaCH (concl cs))"
    by (simp add: calcIRA_def)
  also have "\<dots> = round64 ((\<Sum>c\<leftarrow>concl cs. Number (nota c) * ch c) / (\<Sum>c\<leftarrow>concl cs. ch c))"
    unfolding h p using pos by (rule divide_js_pos)
  finally show "calcIRA cs =
      round64 ((\<Sum>c\<leftarrow>concl cs. Number (nota c) * ch c) / (\<Sum>c\<leftarrow>concl cs. ch c))" .
qed
















subsection \<open>Validation as an ordered rule list\<close>

lemma messages_distinct: "distinct [msg_nome, msg_ch, msg_nota, msg_periodo]"
  by (simp add: msg_nome_def msg_ch_def msg_nota_def msg_periodo_def)

text \<open>
  Claim C3. On every course record \<^verbatim>\<open>validateCourse\<close> does what the ordered rule list
  does: it returns false with exactly one error notification, the message of the first
  rule violated in the order name, credit hours, grade, term (no later rule contributes
  anything), and true with no notification when no rule is violated; the four messages
  are pairwise different.
\<close>

theorem validateCourse_first_violation:
  "validateCourse (as_object c) =
     Inr (case first_violation rules c of
            None \<Rightarrow> (True, [])
          | Some m \<Rightarrow> (False, [erro m]))
   \<and> distinct [msg_nome, msg_ch, msg_nota, msg_periodo]"
proof -
  have "validateCourse (as_object c) =
     Inr (case first_violation rules c of
            None \<Rightarrow> (True, [])
          | Some m \<Rightarrow> (False, [erro m]))"
    by (cases "nota c")
      (auto simp: validateCourse_def as_object_def rules_def rule_name_def
        rule_creditHours_def rule_grade_def rule_term_def not_less not_le)
  then show ?thesis
    using messages_distinct by blast
qed

text \<open>That later rules are not looked at shows on an object without a term: a blank name
  is reported, and the \<^verbatim>\<open>TypeError\<close> that matching the absent term would throw does not
  arise.\<close>

lemma validateCourse_stops_at_first_violation:
  "validateCourse (empty_patch\<lparr>p_nome := Some []\<rparr>) = Inr (False, [erro msg_nome])
   \<and> validateCourse (empty_patch\<lparr>p_nome := Some ''Lab''\<rparr>) = Inl TypeError"
  by (simp add: empty_patch_def concrete_validation) (simp add: trim_def)

theorem validateCourse_first_violation_witness:
  "validateCourse (as_object bad) = Inr (False, [erro msg_ch])
   \<and> validateCourse (as_object physics) = Inr (True, [])"
  using validateCourse_first_violation [of bad] validateCourse_first_violation [of physics]
  by (simp add: bad_def physics_def rules_def rule_name_def rule_creditHours_def
      rule_grade_def rule_term_def trim_Cons_nonspace is_space_simps is_digit_def)

subsection \<open>Adding a course\<close>

lemma validateCourse_as_object_cases:
  "validateCourse (as_object c) = Inr (True, [])
   \<or> (\<exists>m \<in> {msg_nome, msg_ch, msg_nota, msg_periodo}.
        validateCourse (as_object c) = Inr (False, [erro m]))"
  by (auto simp: validateCourse_def as_object_def split: nota.splits)

lemma addCourse_valid:
  "validateCourse (as_object (novo st)) = Inr (True, []) \<Longrightarrow>
   addCourse g1 g2 st =
     Inr \<lparr>courses = (novo st)\<lparr>id_c := g1\<rparr> # courses st,
          novo = \<lparr>id_c = g2, nome = [], ch = 64, nota = Vazia,
                  periodo = periodo (novo st), status = A_cursar\<rparr>,
          notifications = notifications st @ [sucesso msg_adicionada]\<rparr>"
  by (simp add: addCourse_def)

lemma addCourse_invalid:
  "validateCourse (as_object (novo st)) = Inr (False, ns) \<Longrightarrow>
   addCourse g1 g2 st = Inr (st\<lparr>notifications := notifications st @ ns\<rparr>)"
  by (simp add: addCourse_def)

text \<open>
  Claim C4, as the code has it. For every draft, every collection and every draw of
  \<^verbatim>\<open>uuid()\<close>, \<^verbatim>\<open>addCourse\<close> completes, and either the draft passes validation, and then
  the collection becomes the draft with its id replaced by the drawn id, placed in front
  of the old collection, with a success notification; or the draft fails validation, and
  then the collection and the draft are unchanged and one error notification with a
  validation message is added. The id of the new record is the draw, which the code
  compares with nothing.
\<close>

theorem addCourse_atomic:
  "\<exists>st'. addCourse g1 g2 st = Inr st' \<and>
     (if validateCourse (as_object (novo st)) = Inr (True, [])
      then courses st' = (novo st)\<lparr>id_c := g1\<rparr> # courses st
           \<and> id_c (hd (courses st')) = g1
           \<and> tl (courses st') = courses st
           \<and> notifications st' = notifications st @ [sucesso msg_adicionada]
      else courses st' = courses st \<and> novo st' = novo st
           \<and> (\<exists>m \<in> {msg_nome, msg_ch, msg_nota, msg_periodo}.
                 notifications st' = notifications st @ [erro m]))"
proof (cases "validateCourse (as_object (novo st)) = Inr (True, [])")
  case True
  then show ?thesis
    by (simp add: addCourse_valid)
next
  case False
  then obtain m where m: "m \<in> {msg_nome, msg_ch, msg_nota, msg_periodo}"
    and v: "validateCourse (as_object (novo st)) = Inr (False, [erro m])"
    using validateCourse_as_object_cases [of "novo st"] by blast
  have "addCourse g1 g2 st = Inr (st\<lparr>notifications := notifications st @ [erro m]\<rparr>)"
    using v by (rule addCourse_invalid)
  then show ?thesis
    using False m by auto
qed

theorem addCourse_atomic_witness:
  "validateCourse (as_object physics) = Inr (True, [])
   \<and> (\<exists>st'. addCourse ''n1'' ''n2'' \<lparr>courses = [calc2], novo = physics, notifications = []\<rparr> = Inr st'
         \<and> courses st' = [physics\<lparr>id_c := ''n1''\<rparr>, calc2])
   \<and> validateCourse (as_object bad) = Inr (False, [erro msg_ch])
   \<and> (\<exists>st'. addCourse ''n1'' ''n2'' \<lparr>courses = [calc2], novo = bad, notifications = []\<rparr> = Inr st'
         \<and> courses st' = [calc2] \<and> notifications st' = [erro msg_ch])"
proof -
  have vp: "validateCourse (as_object physics) = Inr (True, [])"
    by (simp add: physics_def concrete_validation)
  have vb: "validateCourse (as_object bad) = Inr (False, [erro msg_ch])"
    by (simp add: bad_def concrete_validation)
  from addCourse_atomic
    [of "''n1''" "''n2''" "\<lparr>courses = [calc2], novo = physics, notifications = []\<rparr>"] vp
  have p: "\<exists>st'. addCourse ''n1'' ''n2'' \<lparr>courses = [calc2], novo = physics, notifications = []\<rparr> = Inr st'
         \<and> courses st' = [physics\<lparr>id_c := ''n1''\<rparr>, calc2]"
    by auto
  from addCourse_atomic
    [of "''n1''" "''n2''" "\<lparr>courses = [calc2], novo = bad, notifications = []\<rparr>"] vb
  have q: "\<exists>st'. addCourse ''n1'' ''n2'' \<lparr>courses = [calc2], novo = bad, notifications = []\<rparr> = Inr st'
         \<and> courses st' = [calc2] \<and> notifications st' = [erro msg_ch]"
    by (auto simp: addCourse_invalid)
  from vp vb p q show ?thesis by blast
qed

text \<open>
  Claim C4 as the specification words it fails on freshness: when \<^verbatim>\<open>uuid()\<close> draws the
  string that is the id of the draft and of a stored record, \<^verbatim>\<open>addCourse\<close> stores the new
  record under that id, beside the record that already has it.
\<close>

theorem addCourse_fresh_id_counterexample:
  "addCourse ''k1'' ''n2'' \<lparr>courses = [physics], novo = physics, notifications = []\<rparr>
     = Inr \<lparr>courses = [physics, physics],
            novo = \<lparr>id_c = ''n2'', nome = [], ch = 64, nota = Vazia, periodo = ''2025.1'',
                    status = A_cursar\<rparr>,
            notifications = [sucesso msg_adicionada]\<rparr>
   \<and> id_c (hd [physics, physics]) = id_c physics
   \<and> id_c (hd [physics, physics]) \<in> id_c ` set [physics]"
  by (simp add: addCourse_def physics_def concrete_validation)

subsection \<open>Removing a course\<close>

text \<open>
  Claim C7. \<^verbatim>\<open>remove(id)\<close> cannot fail. Afterwards no record has the id, every record
  with another id is still there, as often as before and in the same order, and the
  notification added is a success; when no record has the id, the collection is exactly
  what it was.
\<close>

theorem remove_deletes_matching:
  "(\<forall>c \<in> set (courses (remove i st)). id_c c \<noteq> i)
   \<and> (\<forall>c. id_c c \<noteq> i \<longrightarrow> count (mset (courses (remove i st))) c = count (mset (courses st)) c)
   \<and> subseq (courses (remove i st)) (courses st)
   \<and> (i \<notin> id_c ` set (courses st) \<longrightarrow> courses (remove i st) = courses st)
   \<and> novo (remove i st) = novo st
   \<and> notifications (remove i st) = notifications st @ [sucesso msg_removida]
   \<and> ntype (sucesso msg_removida) = Success"
proof -
  have "i \<notin> id_c ` set (courses st) \<Longrightarrow> filter (\<lambda>c. id_c c \<noteq> i) (courses st) = courses st"
    by (rule filter_True) auto
  then show ?thesis
    by (simp add: remove_def sucesso_def)
qed

theorem remove_deletes_matching_witness:
  "''zz'' \<notin> id_c ` set (courses \<lparr>courses = [calc2, physics], novo = future, notifications = []\<rparr>)
   \<and> courses (remove ''zz'' \<lparr>courses = [calc2, physics], novo = future, notifications = []\<rparr>)
       = [calc2, physics]
   \<and> courses (remove ''k2'' \<lparr>courses = [calc2, physics], novo = future, notifications = []\<rparr>)
       = [physics]"
proof -
  have a: "''zz'' \<notin> id_c ` set (courses \<lparr>courses = [calc2, physics], novo = future, notifications = []\<rparr>)"
    by (simp add: calc2_def physics_def)
  have b: "courses (remove ''k2'' \<lparr>courses = [calc2, physics], novo = future, notifications = []\<rparr>)
       = [physics]"
    by (simp add: remove_def calc2_def physics_def)
  from a b remove_deletes_matching
    [of "''zz''" "\<lparr>courses = [calc2, physics], novo = future, notifications = []\<rparr>"]
  show ?thesis by simp
qed

text \<open>
  Claim C8, as the code has it. For every collection, every draft that passes validation
  and every draw of \<^verbatim>\<open>uuid()\<close>, \<^verbatim>\<open>addCourse\<close> puts a record with the drawn id in front
  (it returns nothing: the id is that of the new first record), and \<^verbatim>\<open>remove\<close> with that
  id then leaves the records of the old collection that do not have the id, in their old
  order. When no record of the old collection has the drawn id, that is the old collection
  itself, record for record.
\<close>

theorem addCourse_then_remove:
  assumes "validateCourse (as_object (novo st)) = Inr (True, [])"
  shows "\<exists>st'. addCourse g1 g2 st = Inr st' \<and> id_c (hd (courses st')) = g1
           \<and> courses (remove g1 st') = filter (\<lambda>c. id_c c \<noteq> g1) (courses st)
           \<and> (g1 \<notin> id_c ` set (courses st) \<longrightarrow>
                 courses (remove g1 st') = courses st
                 \<and> mset (courses (remove g1 st')) = mset (courses st))"
proof -
  let ?st' = "\<lparr>courses = (novo st)\<lparr>id_c := g1\<rparr> # courses st,
          novo = \<lparr>id_c = g2, nome = [], ch = 64, nota = Vazia,
                  periodo = periodo (novo st), status = A_cursar\<rparr>,
          notifications = notifications st @ [sucesso msg_adicionada]\<rparr>"
  have added: "addCourse g1 g2 st = Inr ?st'"
    using assms by (rule addCourse_valid)
  have removed: "courses (remove g1 ?st') = filter (\<lambda>c. id_c c \<noteq> g1) (courses st)"
    by (simp add: remove_def)
  have fresh: "courses (remove g1 ?st') = courses st
      \<and> mset (courses (remove g1 ?st')) = mset (courses st)"
    if "g1 \<notin> id_c ` set (courses st)"
  proof -
    have "filter (\<lambda>c. id_c c \<noteq> g1) (courses st) = courses st"
      using that by (intro filter_True) auto
    then have "courses (remove g1 ?st') = courses st"
      by (simp only: removed)
    then show ?thesis
      by simp
  qed
  have "id_c (hd (courses ?st')) = g1"
    by simp
  with added removed fresh show ?thesis
    by blast
qed

theorem addCourse_then_remove_witness:
  "validateCourse (as_object (novo \<lparr>courses = [calc2], novo = physics, notifications = []\<rparr>))
     = Inr (True, [])
   \<and> ''n1'' \<notin> id_c ` set (courses \<lparr>courses = [calc2], novo = physics, notifications = []\<rparr>)
   \<and> (\<exists>st'. addCourse ''n1'' ''n2'' \<lparr>courses = [calc2], novo = physics, notifications = []\<rparr> = Inr st'
         \<and> courses (remove ''n1'' st') = [calc2])"
proof -
  have a: "validateCourse (as_object (novo \<lparr>courses = [calc2], novo = physics, notifications = []\<rparr>))
     = Inr (True, [])"
    by (simp add: physics_def concrete_validation)
  have b: "''n1'' \<notin> id_c ` set (courses \<lparr>courses = [calc2], novo = physics, notifications = []\<rparr>)"
    by (simp add: calc2_def)
  from addCourse_then_remove [OF a, of "''n1''" "''n2''"] b
  have "\<exists>st'. addCourse ''n1'' ''n2'' \<lparr>courses = [calc2], novo = physics, notifications = []\<rparr> = Inr st'
         \<and> courses (remove ''n1'' st') = [calc2]"
    by auto
  with a b show ?thesis by blast
qed

text \<open>
  Claim C8 as the specification words it fails when the draw is the id of a stored
  record: \<^verbatim>\<open>remove\<close> then deletes that record with the new one, and the collection that
  held one record is left empty.
\<close>

theorem addCourse_then_remove_counterexample:
  "validateCourse (as_object physics) = Inr (True, [])
   \<and> addCourse ''k2'' ''n2'' \<lparr>courses = [calc2], novo = physics, notifications = []\<rparr>
       = Inr \<lparr>courses = [physics\<lparr>id_c := ''k2''\<rparr>, calc2],
              novo = \<lparr>id_c = ''n2'', nome = [], ch = 64, nota = Vazia, periodo = ''2025.1'',
                      status = A_cursar\<rparr>,
              notifications = [sucesso msg_adicionada]\<rparr>
   \<and> courses (remove ''k2''
        \<lparr>courses = [physics\<lparr>id_c := ''k2''\<rparr>, calc2],
         novo = \<lparr>id_c = ''n2'', nome = [], ch = 64, nota = Vazia, periodo = ''2025.1'',
                 status = A_cursar\<rparr>,
         notifications = [sucesso msg_adicionada]\<rparr>) = []
   \<and> [calc2] \<noteq> []"
  by (simp add: addCourse_def remove_def physics_def calc2_def concrete_validation)

subsection \<open>Updating a course\<close>

lemma find_absent: "i \<notin> id_c ` set xs \<Longrightarrow> find (\<lambda>c. id_c c = i) xs = None"
  by (induction xs) auto

lemma update_absent:
  "i \<notin> id_c ` set (courses st) \<Longrightarrow>
   update i patch st =
     (case validateCourse patch of
        Inl e \<Rightarrow> Inl e
      | Inr (ok, ns) \<Rightarrow>
          if \<not> ok then Inr (st\<lparr>notifications := notifications st @ ns\<rparr>)
          else Inr (st\<lparr>notifications := notifications st @ ns @ [sucesso msg_atualizada]\<rparr>))"
  by (simp add: update_def find_absent split: sum.splits prod.splits)

text \<open>
  Claim C5, as the code has it. For every id that no record of the collection has and
  every patch, a call of \<^verbatim>\<open>update\<close> that completes leaves the collection and the draft
  unchanged. There is no not-found condition: the patch alone is validated as if it were the
  whole record, so the call reports the patch's first validation error when there is one,
  and reports success when the patch alone passes validation.
\<close>

theorem update_absent_id:
  assumes "i \<notin> id_c ` set (courses st)"
  shows "(\<forall>st'. update i patch st = Inr st' \<longrightarrow> courses st' = courses st \<and> novo st' = novo st)
    \<and> (\<forall>ns. validateCourse patch = Inr (False, ns) \<longrightarrow>
          update i patch st = Inr (st\<lparr>notifications := notifications st @ ns\<rparr>))
    \<and> (validateCourse patch = Inr (True, []) \<longrightarrow>
          update i patch st = Inr (st\<lparr>notifications := notifications st @ [sucesso msg_atualizada]\<rparr>))"
proof -
  have "\<And>st'. update i patch st = Inr st' \<Longrightarrow> courses st' = courses st \<and> novo st' = novo st"
    using assms by (auto simp: update_absent split: sum.splits prod.splits if_splits)
  moreover have "\<And>ns. validateCourse patch = Inr (False, ns) \<Longrightarrow>
          update i patch st = Inr (st\<lparr>notifications := notifications st @ ns\<rparr>)"
    using assms by (simp add: update_absent)
  moreover have "validateCourse patch = Inr (True, []) \<Longrightarrow>
          update i patch st = Inr (st\<lparr>notifications := notifications st @ [sucesso msg_atualizada]\<rparr>)"
    using assms by (simp add: update_absent)
  ultimately show ?thesis by blast
qed

theorem update_absent_id_witness:
  "''zz'' \<notin> id_c ` set (courses \<lparr>courses = [physics], novo = future, notifications = []\<rparr>)
   \<and> validateCourse (empty_patch\<lparr>p_nome := Some [], p_periodo := Some ''2025.1''\<rparr>)
       = Inr (False, [erro msg_nome])
   \<and> update ''zz'' (empty_patch\<lparr>p_nome := Some [], p_periodo := Some ''2025.1''\<rparr>)
       \<lparr>courses = [physics], novo = future, notifications = []\<rparr>
       = Inr \<lparr>courses = [physics], novo = future, notifications = [erro msg_nome]\<rparr>
   \<and> validateCourse (empty_patch\<lparr>p_nome := Some ''Lab'', p_periodo := Some ''2025.1''\<rparr>)
       = Inr (True, [])
   \<and> update ''zz'' (empty_patch\<lparr>p_nome := Some ''Lab'', p_periodo := Some ''2025.1''\<rparr>)
       \<lparr>courses = [physics], novo = future, notifications = []\<rparr>
       = Inr \<lparr>courses = [physics], novo = future, notifications = [sucesso msg_atualizada]\<rparr>"
proof -
  let ?st = "\<lparr>courses = [physics], novo = future, notifications = []\<rparr>"
  have a: "''zz'' \<notin> id_c ` set (courses ?st)"
    by (simp add: physics_def)
  have b: "validateCourse (empty_patch\<lparr>p_nome := Some [], p_periodo := Some ''2025.1''\<rparr>)
       = Inr (False, [erro msg_nome])"
    by (simp add: validateCourse_def empty_patch_def trim_def)
  have c: "validateCourse (empty_patch\<lparr>p_nome := Some ''Lab'', p_periodo := Some ''2025.1''\<rparr>)
       = Inr (True, [])"
    by (simp add: empty_patch_def concrete_validation)
  from update_absent_id [OF a, of "empty_patch\<lparr>p_nome := Some [], p_periodo := Some ''2025.1''\<rparr>"] b
  have d: "update ''zz'' (empty_patch\<lparr>p_nome := Some [], p_periodo := Some ''2025.1''\<rparr>) ?st
       = Inr \<lparr>courses = [physics], novo = future, notifications = [erro msg_nome]\<rparr>"
    by simp
  from update_absent_id [OF a, of "empty_patch\<lparr>p_nome := Some ''Lab'', p_periodo := Some ''2025.1''\<rparr>"] c
  have e: "update ''zz'' (empty_patch\<lparr>p_nome := Some ''Lab'', p_periodo := Some ''2025.1''\<rparr>) ?st
       = Inr \<lparr>courses = [physics], novo = future, notifications = [sucesso msg_atualizada]\<rparr>"
    by simp
  from a b c d e show ?thesis by blast
qed

text \<open>
  Claim C5 as the specification words it fails: on an id that is absent, a patch that
  carries a name and a term is reported as a successful update, and a patch that carries
  only credit hours, as the table's input fields send it, ends in a \<^verbatim>\<open>TypeError\<close>.
\<close>

theorem update_absent_id_counterexample:
  "update ''zz'' (empty_patch\<lparr>p_nome := Some ''Lab'', p_periodo := Some ''2025.1''\<rparr>)
       \<lparr>courses = [physics], novo = future, notifications = []\<rparr>
     = Inr \<lparr>courses = [physics], novo = future, notifications = [sucesso msg_atualizada]\<rparr>
   \<and> update ''zz'' (empty_patch\<lparr>p_ch := Some 32\<rparr>)
       \<lparr>courses = [physics], novo = future, notifications = []\<rparr>
     = Inl TypeError"
  by (simp add: update_def physics_def empty_patch_def concrete_validation)




lemma spread_empty_patch: "spread c empty_patch = c"
  by (simp add: spread_def empty_patch_def)



text \<open>A stored record that does not pass validation is rejected again by an update
  with the empty patch: the update is not reported as a success.\<close>

lemma update_empty_patch_revalidates:
  "update ''k4'' empty_patch \<lparr>courses = [bad], novo = future, notifications = []\<rparr>
     = Inr \<lparr>courses = [bad], novo = future, notifications = [erro msg_ch]\<rparr>"
  by (simp add: update_def spread_empty_patch Let_def)
    (simp add: bad_def concrete_validation)

subsection \<open>Credit hours in the reachable states\<close>

lemma lab_state_run: "run seed0 [SetNovo lab_draft, AddCourse ''n1'' ''n2''] = lab_state"
  by (simp add: run_def addCourse_def setNovo_def seed0_def seedPlanner_def lab_draft_def
      lab_state_def concrete_validation)

lemma validateCourse_ch_pos:
  "validateCourse (as_object c) = Inr (True, ns) \<Longrightarrow> 0 < ch c"
  by (auto simp: validateCourse_def as_object_def split: if_splits)

lemma addCourse_ch_pos:
  assumes "addCourse g1 g2 st = Inr st'" and "\<forall>c \<in> set (courses st). 0 < ch c"
  shows "\<forall>c \<in> set (courses st'). 0 < ch c"
proof (cases "validateCourse (as_object (novo st)) = Inr (True, [])")
  case True
  then have "0 < ch (novo st)"
    by (rule validateCourse_ch_pos)
  moreover have "courses st' = (novo st)\<lparr>id_c := g1\<rparr> # courses st"
    using assms(1) True by (auto simp: addCourse_valid)
  ultimately show ?thesis
    using assms(2) by simp
next
  case False
  then obtain m where "validateCourse (as_object (novo st)) = Inr (False, [erro m])"
    using validateCourse_as_object_cases [of "novo st"] by blast
  then have "courses st' = courses st"
    using assms(1) by (auto simp: addCourse_invalid)
  then show ?thesis
    using assms(2) by simp
qed

lemma update_ch_pos:
  assumes "update i patch st = Inr st'" and "\<forall>c \<in> set (courses st). 0 < ch c"
  shows "\<forall>c \<in> set (courses st'). 0 < ch c"
proof (cases "find (\<lambda>c. id_c c = i) (courses st)")
  case None
  then have "courses st' = courses st"
    using assms(1) by (auto simp: update_def split: sum.splits prod.splits if_splits)
  then show ?thesis
    using assms(2) by simp
next
  case (Some c0)
  let ?u = "spread c0 patch"
  show ?thesis
  proof (cases "validateCourse (as_object ?u) = Inr (True, [])")
    case True
    then have "0 < ch ?u"
      by (rule validateCourse_ch_pos)
    moreover have "courses st' = map (\<lambda>c. if id_c c = i then ?u else c) (courses st)"
      using assms(1) Some True by (auto simp: update_def Let_def)
    ultimately show ?thesis
      using assms(2) by auto
  next
    case False
    then obtain m where "validateCourse (as_object ?u) = Inr (False, [erro m])"
      using validateCourse_as_object_cases [of ?u] by blast
    then have "courses st' = courses st"
      using assms(1) Some by (auto simp: update_def Let_def)
    then show ?thesis
      using assms(2) by simp
  qed
qed

lemma step_ch_pos:
  assumes "\<forall>c \<in> set (courses st). 0 < ch c"
  shows "\<forall>c \<in> set (courses (step st a)). 0 < ch c"
proof (cases a)
  case (SetNovo c)
  then show ?thesis
    using assms by (simp add: setNovo_def)
next
  case (AddCourse g1 g2)
  then show ?thesis
    using assms addCourse_ch_pos [of g1 g2 st] by (auto split: sum.splits)
next
  case (Update i patch)
  then show ?thesis
    using assms update_ch_pos [of i patch st] by (auto split: sum.splits)
next
  case (Remove i)
  then show ?thesis
    using assms by (simp add: remove_def)
qed

lemma run_ch_pos:
  "\<forall>c \<in> set (courses st). 0 < ch c \<Longrightarrow> \<forall>c \<in> set (courses (run st acts)). 0 < ch c"
  unfolding run_def
proof (induction acts arbitrary: st)
  case Nil
  then show ?case by simp
next
  case (Cons a acts)
  have "\<forall>c \<in> set (courses (step st a)). 0 < ch c"
    using Cons.prems by (rule step_ch_pos)
  then have "\<forall>c \<in> set (courses (foldl step (step st a) acts)). 0 < ch c"
    by (rule Cons.IH)
  then show ?case by simp
qed

text \<open>
  Claim C9, as the code has it. In every state that a sequence of actions (edits of the
  draft, \<^verbatim>\<open>addCourse\<close>, \<^verbatim>\<open>update\<close>, \<^verbatim>\<open>remove\<close>) reaches from the seed, whatever the
  draws of \<^verbatim>\<open>uuid()\<close>, every record of the collection has credit hours greater than 0.
  Nothing makes them an integer.
\<close>

theorem reachable_ch_positive:
  "\<forall>c \<in> set (courses (run (seedPlanner g1 g2 g3 g year) acts)). 0 < ch c"
proof (rule run_ch_pos)
  show "\<forall>c \<in> set (courses (seedPlanner g1 g2 g3 g year)). 0 < ch c"
    by (simp add: seedPlanner_def seedData_def)
qed

theorem reachable_ch_positive_witness:
  "run seed0 [SetNovo lab_draft, AddCourse ''n1'' ''n2''] = lab_state
   \<and> hd (courses lab_state) = lab_draft\<lparr>id_c := ''n1''\<rparr>
   \<and> 0 < ch (hd (courses lab_state))
   \<and> 0 < ch (last (courses lab_state))"
proof -
  have "hd (courses lab_state) \<in> set (courses lab_state)"
    "last (courses lab_state) \<in> set (courses lab_state)"
    by (simp_all add: lab_state_def seedData_def)
  moreover have "\<forall>c \<in> set (courses lab_state). 0 < ch c"
    using reachable_ch_positive
      [of "''s1''" "''s2''" "''s3''" "''d0''" "''2025''"
          "[SetNovo lab_draft, AddCourse ''n1'' ''n2'']"]
    by (simp add: lab_state_run flip: seed0_def)
  moreover have "hd (courses lab_state) = lab_draft\<lparr>id_c := ''n1''\<rparr>"
    by (simp add: lab_state_def)
  ultimately show ?thesis
    using lab_state_run by blast
qed

text \<open>
  Claim C9 as the specification words it fails on integrality: a draft with one and a
  half credit hours passes validation, and after \<^verbatim>\<open>addCourse\<close> the state reached from
  the seed holds it at the front of the collection.
\<close>

theorem reachable_ch_integer_counterexample:
  "run seed0 [SetNovo lab_draft, AddCourse ''n1'' ''n2''] = lab_state
   \<and> ch (hd (courses lab_state)) = 3 / 2
   \<and> \<not> is_integer (ch (hd (courses lab_state)))"
proof -
  have c: "ch (hd (courses lab_state)) = 3 / 2"
    by (simp add: lab_state_def lab_draft_def)
  have "\<lfloor>(3::rat) / 2\<rfloor> = 1"
    by (rule floor_unique) simp_all
  then have n: "\<not> is_integer (3 / 2)"
    by (simp add: is_integer_def)
  have "\<not> is_integer (ch (hd (courses lab_state)))"
    unfolding c by (rule n)
  with c lab_state_run show ?thesis
    by blast
qed

subsection \<open>Grades of courses that are not completed\<close>

lemma over_state_run: "run seed0 [SetNovo over_draft, AddCourse ''n1'' ''n2''] = over_state"
  by (simp add: run_def addCourse_def setNovo_def seed0_def seedPlanner_def over_draft_def
      over_state_def concrete_validation)

lemma over_state_index: "calcIRA (courses over_state) = Finite_num (61 / 2)"
proof -
  let ?cs = "courses over_state"
  have c: "concl ?cs =
      [over_draft\<lparr>id_c := ''n1''\<rparr>, seedData ''s1'' ''s2'' ''s3'' ! 0, seedData ''s1'' ''s2'' ''s3'' ! 1]"
    by (simp add: concl_def over_state_def over_draft_def seedData_def)
  have a: "concl ?cs \<noteq> []"
    by (simp add: c)
  have b: "\<forall>c \<in> set (concl ?cs). 0 < ch c \<and> is_integer (ch c) \<and> is_integer (Number (nota c))"
    by (simp add: c over_draft_def seedData_def is_integer_def)
  have sa: "(\<Sum>c\<leftarrow>concl ?cs. \<bar>Number (nota c)\<bar> * ch c) = 7808"
    and sp: "(\<Sum>c\<leftarrow>concl ?cs. Number (nota c) * ch c) = 7808"
    and sh: "(\<Sum>c\<leftarrow>concl ?cs. ch c) = 256"
    by (simp_all add: c over_draft_def seedData_def)
  have "calcIRA ?cs = round64 (7808 / 256)"
    using calcIRA_exact(1) [OF a b] by (simp add: sa sp sh)
  also have "(7808 :: rat) / 256 = 61 / 2"
    by simp
  also have "round64 (61 / 2) = Finite_num (61 / 2)"
    by (rule round64_exact [where n = 61 and k = "- 1"]) simp_all
  finally show ?thesis .
qed

lemma validateCourse_not_Cursada:
  assumes "status d \<noteq> Cursada" and "trim (nome d) \<noteq> []" and "0 < ch d"
    and "match_periodo (periodo d)"
  shows "validateCourse (as_object (d\<lparr>nota := n\<rparr>)) = Inr (True, [])"
  using assms by (simp add: validateCourse_def as_object_def)

text \<open>
  Claim C10. Let a draft have a status other than \<^verbatim>\<open>"Cursada"\<close>, a name that is not
  blank, positive credit hours and a well-formed term. Then with any number whatever as
  its grade it passes validation; \<^verbatim>\<open>addCourse\<close> commits it; \<^verbatim>\<open>update\<close> with a patch that
  carries only the grade commits it onto a record already stored; with status
  \<^verbatim>\<open>"Em andamento"\<close> the graded record is among those \<^verbatim>\<open>calcIRA\<close> counts; and the state
  reached from the seed by adding such a record with grade 100 has the index 30.5, above
  10.
\<close>

theorem grade_unchecked_unless_Cursada:
  assumes "status d \<noteq> Cursada" and "trim (nome d) \<noteq> []" and "0 < ch d"
    and "match_periodo (periodo d)"
  shows "validateCourse (as_object (d\<lparr>nota := Nota x\<rparr>)) = Inr (True, [])
    \<and> (novo st = d\<lparr>nota := Nota x\<rparr> \<longrightarrow>
          (\<exists>st'. addCourse g1 g2 st = Inr st'
             \<and> courses st' = d\<lparr>nota := Nota x, id_c := g1\<rparr> # courses st))
    \<and> (find (\<lambda>c. id_c c = i) (courses st) = Some d \<longrightarrow>
          (\<exists>st'. update i (empty_patch\<lparr>p_nota := Some (Nota x)\<rparr>) st = Inr st'
             \<and> courses st' = map (\<lambda>c. if id_c c = i then d\<lparr>nota := Nota x\<rparr> else c) (courses st)))
    \<and> (status d = Em_andamento \<longrightarrow> concl [d\<lparr>nota := Nota x\<rparr>] = [d\<lparr>nota := Nota x\<rparr>])
    \<and> calcIRA (courses (run seed0 [SetNovo over_draft, AddCourse ''n1'' ''n2'']))
          = Finite_num (61 / 2)
    \<and> (10::rat) < 61 / 2"
proof -
  have v: "validateCourse (as_object (d\<lparr>nota := Nota x\<rparr>)) = Inr (True, [])"
    using assms by (rule validateCourse_not_Cursada)
  have a: "novo st = d\<lparr>nota := Nota x\<rparr> \<Longrightarrow>
          \<exists>st'. addCourse g1 g2 st = Inr st'
             \<and> courses st' = d\<lparr>nota := Nota x, id_c := g1\<rparr> # courses st"
    using v by (simp add: addCourse_valid)
  have s: "spread d (empty_patch\<lparr>p_nota := Some (Nota x)\<rparr>) = d\<lparr>nota := Nota x\<rparr>"
    by (simp add: spread_def empty_patch_def)
  have u: "find (\<lambda>c. id_c c = i) (courses st) = Some d \<Longrightarrow>
          \<exists>st'. update i (empty_patch\<lparr>p_nota := Some (Nota x)\<rparr>) st = Inr st'
             \<and> courses st' = map (\<lambda>c. if id_c c = i then d\<lparr>nota := Nota x\<rparr> else c) (courses st)"
    using v by (simp add: update_def Let_def s)
  have q: "status d = Em_andamento \<Longrightarrow> concl [d\<lparr>nota := Nota x\<rparr>] = [d\<lparr>nota := Nota x\<rparr>]"
    by (simp add: concl_def)
  have e: "calcIRA (courses (run seed0 [SetNovo over_draft, AddCourse ''n1'' ''n2'']))
          = Finite_num (61 / 2)
      \<and> (10::rat) < 61 / 2"
    using over_state_index by (simp add: over_state_run)
  from v a u q e show ?thesis
    by blast
qed

theorem grade_unchecked_unless_Cursada_witness:
  "status over_draft \<noteq> Cursada
   \<and> trim (nome over_draft) \<noteq> []
   \<and> 0 < ch over_draft
   \<and> match_periodo (periodo over_draft)
   \<and> novo (setNovo over_draft seed0) = over_draft\<lparr>nota := Nota 100\<rparr>
   \<and> validateCourse (as_object (over_draft\<lparr>nota := Nota 100\<rparr>)) = Inr (True, [])
   \<and> (\<exists>st'. addCourse ''n1'' ''n2'' (setNovo over_draft seed0) = Inr st'
         \<and> courses st' = over_draft\<lparr>nota := Nota 100, id_c := ''n1''\<rparr> # courses seed0)
   \<and> concl [over_draft\<lparr>nota := Nota 100\<rparr>] = [over_draft\<lparr>nota := Nota 100\<rparr>]"
proof -
  have a: "status over_draft \<noteq> Cursada"
    by (simp add: over_draft_def)
  have b: "trim (nome over_draft) \<noteq> []"
    by (simp add: over_draft_def trim_Cons_nonspace is_space_simps)
  have c: "0 < ch over_draft"
    by (simp add: over_draft_def)
  have d: "match_periodo (periodo over_draft)"
    by (simp add: over_draft_def is_digit_def)
  have e: "novo (setNovo over_draft seed0) = over_draft\<lparr>nota := Nota 100\<rparr>"
    by (simp add: setNovo_def over_draft_def)
  have f: "status over_draft = Em_andamento"
    by (simp add: over_draft_def)
  have g: "courses (setNovo over_draft seed0) = courses seed0"
    by (simp add: setNovo_def)
  from grade_unchecked_unless_Cursada
    [OF a b c d, of 100 "setNovo over_draft seed0" "''n1''" "''n2''"] e f g
  have "validateCourse (as_object (over_draft\<lparr>nota := Nota 100\<rparr>)) = Inr (True, [])
   \<and> (\<exists>st'. addCourse ''n1'' ''n2'' (setNovo over_draft seed0) = Inr st'
         \<and> courses st' = over_draft\<lparr>nota := Nota 100, id_c := ''n1''\<rparr> # courses seed0)
   \<and> concl [over_draft\<lparr>nota := Nota 100\<rparr>] = [over_draft\<lparr>nota := Nota 100\<rparr>]"
    by simp
  with a b c d e show ?thesis
    by simp
qed

subsection \<open>Uniqueness of ids in the collection\<close>

text \<open>
  The ids of the collection stay pairwise different under \<^verbatim>\<open>addCourse\<close> when the draw is
  not among them, under \<^verbatim>\<open>update\<close> when the patch carries no id (the table's cells send
  one property each, never the id), and under \<^verbatim>\<open>remove\<close>.
\<close>

lemma addCourse_ids_distinct:
  assumes "distinct (map id_c (courses st))" and "g1 \<notin> id_c ` set (courses st)"
    and "addCourse g1 g2 st = Inr st'"
  shows "distinct (map id_c (courses st'))"
proof (cases "validateCourse (as_object (novo st)) = Inr (True, [])")
  case True
  then have "courses st' = (novo st)\<lparr>id_c := g1\<rparr> # courses st"
    using assms(3) by (auto simp: addCourse_valid)
  then show ?thesis
    using assms(1,2) by simp
next
  case False
  then obtain m where "validateCourse (as_object (novo st)) = Inr (False, [erro m])"
    using validateCourse_as_object_cases [of "novo st"] by blast
  then have "courses st' = courses st"
    using assms(3) by (auto simp: addCourse_invalid)
  then show ?thesis
    using assms(1) by simp
qed

lemma update_ids_unchanged:
  assumes "p_id patch = None" and "update i patch st = Inr st'"
  shows "map id_c (courses st') = map id_c (courses st)"
proof (cases "find (\<lambda>c. id_c c = i) (courses st)")
  case None
  then have "courses st' = courses st"
    using assms(2) by (auto simp: update_def split: sum.splits prod.splits if_splits)
  then show ?thesis by simp
next
  case (Some c0)
  then have c0: "id_c c0 = i"
    by (auto simp: find_Some_iff)
  let ?u = "spread c0 patch"
  have u: "id_c ?u = i"
    using assms(1) c0 by (simp add: spread_def)
  show ?thesis
  proof (cases "validateCourse (as_object ?u) = Inr (True, [])")
    case True
    then have "courses st' = map (\<lambda>c. if id_c c = i then ?u else c) (courses st)"
      using assms(2) Some by (auto simp: update_def Let_def)
    then show ?thesis
      using u by (simp add: comp_def cong: map_cong)
  next
    case False
    then obtain m where "validateCourse (as_object ?u) = Inr (False, [erro m])"
      using validateCourse_as_object_cases [of ?u] by blast
    then have "courses st' = courses st"
      using assms(2) Some by (auto simp: update_def Let_def)
    then show ?thesis by simp
  qed
qed

lemma remove_ids_distinct:
  "distinct (map id_c (courses st)) \<Longrightarrow> distinct (map id_c (courses (remove i st)))"
  by (simp add: remove_def distinct_map_filter)

end
